theory Spec2Isabelle
  imports Main "HOL-Library.Sublist"
begin

section \<open>The browser verification runners\<close>

text \<open>
  The repository holds two scripts, \<^verbatim>\<open>verification/verify_ipad.py\<close> and
  \<^verbatim>\<open>verification/verify_player.py\<close>. Each is a straight line of calls into the
  Playwright browser-automation library, of \<^verbatim>\<open>print\<close> and, in the second script, of
  \<^verbatim>\<open>os.getcwd\<close>, wrapped in Python's \<^verbatim>\<open>with\<close>, \<^verbatim>\<open>try\<close>/\<^verbatim>\<open>except\<close> and
  \<^verbatim>\<open>finally\<close> blocks.

  The embedding keeps the scripts as they are written and makes everything outside them
  explicit: the environment answers every call with success or with an exception, and a
  run threads a world through the statements, recording the calls made (with their
  outcome), the screenshot files written and the lines printed.
\<close>

subsection \<open>Exceptions\<close>

text \<open>
  Playwright raises \<^verbatim>\<open>Error\<close> and its subclass \<^verbatim>\<open>TimeoutError\<close>; \<^verbatim>\<open>print\<close> and
  \<^verbatim>\<open>os.getcwd\<close> raise \<^verbatim>\<open>OSError\<close> (and its subclasses) or \<^verbatim>\<open>UnicodeEncodeError\<close>.
  All of these derive from \<^verbatim>\<open>Exception\<close>. \<^verbatim>\<open>KeyboardInterrupt\<close> stands for the
  exceptions derived from \<^verbatim>\<open>BaseException\<close> only, which \<^verbatim>\<open>except Exception\<close> lets
  through.
\<close>

datatype exn =
    Error string
  | TimeoutError string
  | OSError string
  | UnicodeEncodeError string
  | KeyboardInterrupt

fun is_Exception :: "exn \<Rightarrow> bool" where
  "is_Exception KeyboardInterrupt = False"
| "is_Exception e = True"

text \<open>\<^verbatim>\<open>str(e)\<close>, as the f-string \<^verbatim>\<open>f"Error: {e}"\<close> formats it.\<close>

fun str_exn :: "exn \<Rightarrow> string" where
  "str_exn (Error m) = m"
| "str_exn (TimeoutError m) = m"
| "str_exn (OSError m) = m"
| "str_exn (UnicodeEncodeError m) = m"
| "str_exn KeyboardInterrupt = []"

subsection \<open>Calls, the invoking environment and the world\<close>

text \<open>
  One constructor for each call the two scripts make outside themselves, with the
  arguments the script passes; an optional keyword argument that is left out is \<open>None\<close>.
\<close>

datatype call =
    SyncPlaywrightEnter
  | SyncPlaywrightExit
  | Launch bool
  | NewContext int int string
  | ContextNewPage
  | BrowserNewPage
  | Goto string
  | WaitForSelector string "int option" "string option"
  | Screenshot string
  | Click string
  | WaitForTimeout int
  | BrowserClose
  | Print string
  | GetCwd

type_synonym event = "call \<times> exn option"

text \<open>
  The invoking environment. \<open>respond\<close> is how Playwright, the browser and the application
  answer a call, given everything that happened before; \<open>print_answer\<close> is how the standard
  output of the process answers a line written to it (it raises, for instance, when the
  line cannot be encoded or the stream cannot be written); \<open>getcwd\<close> is the working
  directory the process was started in, or the error \<^verbatim>\<open>os.getcwd\<close> raises when that
  directory no longer exists.
\<close>

record env =
  respond :: "event list \<Rightarrow> call \<Rightarrow> exn option"
  print_answer :: "event list \<Rightarrow> string \<Rightarrow> exn option"
  getcwd :: "exn + string"

record world =
  events :: "event list"
  files :: "string list"
  stdout :: "string list"

definition init_world :: world where
  "init_world = \<lparr>events = [], files = [], stdout = []\<rparr>"

type_synonym stmt = "world \<Rightarrow> (exn + unit) \<times> world"

text \<open>A screenshot that returns has written its file; no other call writes one.\<close>

fun effect :: "call \<Rightarrow> world \<Rightarrow> world" where
  "effect (Screenshot p) w = w\<lparr>files := files w @ [p]\<rparr>"
| "effect c w = w"

text \<open>A call into Playwright.\<close>

definition lib_call :: "env \<Rightarrow> call \<Rightarrow> stmt" where
  "lib_call E c w =
     (case respond E (events w) c of
        None \<Rightarrow> (Inr (), effect c (w\<lparr>events := events w @ [(c, None)]\<rparr>))
      | Some e \<Rightarrow> (Inl e, w\<lparr>events := events w @ [(c, Some e)]\<rparr>))"

text \<open>\<^verbatim>\<open>print(s)\<close>: the line reaches the standard output, or the call raises.\<close>

definition print_line :: "env \<Rightarrow> string \<Rightarrow> stmt" where
  "print_line E s w =
     (case print_answer E (events w) s of
        None \<Rightarrow> (Inr (), w\<lparr>events := events w @ [(Print s, None)], stdout := stdout w @ [s]\<rparr>)
      | Some e \<Rightarrow> (Inl e, w\<lparr>events := events w @ [(Print s, Some e)]\<rparr>))"

text \<open>\<^verbatim>\<open>os.getcwd()\<close>: returns the working directory, or raises.\<close>

definition os_getcwd :: "env \<Rightarrow> world \<Rightarrow> (exn + string) \<times> world" where
  "os_getcwd E w =
     (case getcwd E of
        Inr d \<Rightarrow> (Inr d, w\<lparr>events := events w @ [(GetCwd, None)]\<rparr>)
      | Inl e \<Rightarrow> (Inl e, w\<lparr>events := events w @ [(GetCwd, Some e)]\<rparr>))"

subsection \<open>Control flow of Python\<close>

text \<open>A block of statements: the first exception ends it.\<close>

fun block :: "stmt list \<Rightarrow> stmt" where
  "block [] w = (Inr (), w)"
| "block (s # ss) w =
     (case s w of
        (Inl e, w') \<Rightarrow> (Inl e, w')
      | (Inr u, w') \<Rightarrow> block ss w')"

text \<open>\<^verbatim>\<open>x = m()\<close> followed by the statements that use \<open>x\<close>.\<close>

definition assign :: "(world \<Rightarrow> (exn + 'a) \<times> world) \<Rightarrow> ('a \<Rightarrow> stmt) \<Rightarrow> stmt" where
  "assign m rest w =
     (case m w of
        (Inl e, w') \<Rightarrow> (Inl e, w')
      | (Inr x, w') \<Rightarrow> rest x w')"

text \<open>
  \<^verbatim>\<open>try: body  except Exception as e: handler\<close>. An exception the handler raises leaves
  the statement.
\<close>

definition try_except_Exception :: "stmt \<Rightarrow> (exn \<Rightarrow> stmt) \<Rightarrow> stmt" where
  "try_except_Exception body handler w =
     (case body w of
        (Inl e, w') \<Rightarrow> if is_Exception e then handler e w' else (Inl e, w')
      | (Inr u, w') \<Rightarrow> (Inr u, w'))"

text \<open>
  \<^verbatim>\<open>try: body  finally: fin\<close>. The final block runs on every path; an exception it
  raises replaces the outcome of the body.
\<close>

definition try_finally :: "stmt \<Rightarrow> stmt \<Rightarrow> stmt" where
  "try_finally body fin w =
     (case body w of
        (r, w') \<Rightarrow>
          (case fin w' of
             (Inl e, w'') \<Rightarrow> (Inl e, w'')
           | (Inr u, w'') \<Rightarrow> (r, w'')))"

text \<open>
  \<^verbatim>\<open>with sync_playwright() as p: body\<close>. When entering fails the body does not run
  and nothing is exited; otherwise the scope is exited on every path, and the exit does not
  suppress an exception of the body.
\<close>

definition with_sync_playwright :: "env \<Rightarrow> stmt \<Rightarrow> stmt" where
  "with_sync_playwright E body w =
     (case lib_call E SyncPlaywrightEnter w of
        (Inl e, w') \<Rightarrow> (Inl e, w')
      | (Inr u, w') \<Rightarrow> try_finally body (lib_call E SyncPlaywrightExit) w')"

text \<open>
  \<^verbatim>\<open>os.path.join(a, b)\<close> on a POSIX system, for two components.
\<close>

definition path_join :: "string \<Rightarrow> string \<Rightarrow> string" where
  "path_join a b =
     (if (b \<noteq> [] \<and> hd b = CHR ''/'') \<or> a = [] then b
      else if last a = CHR ''/'' then a @ b
      else a @ ''/'' @ b)"

subsection \<open>verify_ipad.py\<close>

definition ipad_user_agent :: string where
  "ipad_user_agent = ''Mozilla/5.0 (iPad; CPU OS 11_0 like Mac OS X) AppleWebKit/604.1.34 (KHTML, like Gecko) Version/11.0 Mobile/15A5341f Safari/604.1''"

definition verify_app :: "env \<Rightarrow> stmt" where
  "verify_app E =
     with_sync_playwright E (block
       [lib_call E (Launch True),
        lib_call E (NewContext 834 1194 ipad_user_agent),
        lib_call E ContextNewPage,
        try_finally
          (try_except_Exception
             (block
               [lib_call E (Goto ''http://localhost:3000''),
                lib_call E (WaitForSelector ''text=Recent Heat'' (Some 10000) None),
                lib_call E (Screenshot ''verification/home_ipad.png''),
                print_line E ''Home screenshot taken'',
                lib_call E (Click ''text=Library''),
                lib_call E (WaitForTimeout 500),
                lib_call E (Screenshot ''verification/library_ipad.png''),
                print_line E ''Library screenshot taken'',
                lib_call E (Click ''text=Search''),
                lib_call E (WaitForTimeout 500),
                lib_call E (Screenshot ''verification/search_ipad.png''),
                print_line E ''Search screenshot taken''])
             (\<lambda>e. print_line E (''Error: '' @ str_exn e)))
          (lib_call E BrowserClose)])"

subsection \<open>verify_player.py\<close>

definition verify_audio_player :: "env \<Rightarrow> stmt" where
  "verify_audio_player E =
     block
       [lib_call E (Goto ''http://localhost:3000''),
        lib_call E (WaitForSelector ''h1'' None (Some ''visible'')),
        assign (os_getcwd E) (\<lambda>cwd.
          let path = path_join cwd ''verification/home.png'' in
          block
            [lib_call E (Screenshot path),
             print_line E (''Home screenshot taken at '' @ path)])]"

definition main_player :: "env \<Rightarrow> stmt" where
  "main_player E =
     with_sync_playwright E (block
       [lib_call E (Launch True),
        lib_call E BrowserNewPage,
        try_finally (verify_audio_player E) (lib_call E BrowserClose)])"

subsection \<open>Observations of a run\<close>

text \<open>
  The interpreter exits with status zero when the main block ends without an exception,
  and with a non-zero status when an exception reaches the top level.
\<close>

fun exits_zero :: "(exn + unit) \<Rightarrow> bool" where
  "exits_zero (Inr u) = True"
| "exits_zero (Inl e) = False"

definition calls :: "world \<Rightarrow> call list" where
  "calls w = map fst (events w)"

definition succeeded :: "call \<Rightarrow> world \<Rightarrow> bool" where
  "succeeded c w = ((c, None) \<in> set (events w))"

definition raised :: "call \<Rightarrow> exn \<Rightarrow> world \<Rightarrow> bool" where
  "raised c e w = ((c, Some e) \<in> set (events w))"

text \<open>The first \<open>n\<close> calls of the run all returned.\<close>

definition first_ok :: "nat \<Rightarrow> world \<Rightarrow> bool" where
  "first_ok n w = list_all (\<lambda>ev. snd ev = None) (take n (events w))"

text \<open>
  The calls on the page (navigation, waiting, interaction, screenshots), the calls that
  set a browser, a context and a page up, and the calls of the \<^verbatim>\<open>try\<close> block of
  \<^verbatim>\<open>verify_app\<close>, which are the page calls and the three progress lines.
\<close>

fun page_call :: "call \<Rightarrow> bool" where
  "page_call (Goto u) = True"
| "page_call (WaitForSelector s t v) = True"
| "page_call (Screenshot p) = True"
| "page_call (Click s) = True"
| "page_call (WaitForTimeout n) = True"
| "page_call c = False"

fun setup_call :: "call \<Rightarrow> bool" where
  "setup_call (Launch h) = True"
| "setup_call (NewContext x y a) = True"
| "setup_call ContextNewPage = True"
| "setup_call BrowserNewPage = True"
| "setup_call c = False"

definition try_block_call :: "call \<Rightarrow> bool" where
  "try_block_call c =
     (page_call c \<or> c = Print ''Home screenshot taken'' \<or>
      c = Print ''Library screenshot taken'' \<or> c = Print ''Search screenshot taken'')"

text \<open>
  The browser session, read off the calls of a run. A launch that returns opens it.
  \<^verbatim>\<open>browser.close()\<close> closes it when it returns. Leaving the scope of
  \<^verbatim>\<open>with sync_playwright()\<close> releases it in any case: Python invokes the exit of the
  scope on every path out of the block, and Playwright's exit begins by stopping its
  driver process, which ends the browsers that driver launched.
\<close>

fun session_step :: "bool \<Rightarrow> event \<Rightarrow> bool" where
  "session_step s (Launch h, None) = True"
| "session_step s (BrowserClose, None) = False"
| "session_step s (SyncPlaywrightExit, x) = False"
| "session_step s ev = s"

definition session_open :: "world \<Rightarrow> bool" where
  "session_open w = foldl session_step False (events w)"

subsection \<open>The possible outcomes of a run\<close>

text \<open>
  Both scripts are straight lines, so a run is determined by the first call that raises
  and by what the handler's \<^verbatim>\<open>print\<close>, closing the browser and leaving the Playwright
  scope answer. The two predicates below list every outcome; that each run has one of them
  is proved from the definitions of the scripts (\<open>verify_app_outcome\<close>,
  \<open>main_player_outcome\<close>).
\<close>

text \<open>The outcome \<open>r\<close> of a block, after a final step that answered \<open>x\<close>.\<close>

fun after_final :: "exn option \<Rightarrow> (exn + unit) \<Rightarrow> (exn + unit)" where
  "after_final None r = r"
| "after_final (Some e) r = Inl e"

text \<open>
  What the handler of \<^verbatim>\<open>verify_app\<close> makes of an exception \<open>e\<close> of the \<^verbatim>\<open>try\<close> block,
  when its own \<^verbatim>\<open>print\<close> answers \<open>z\<close>: the call it makes, the line it prints and the
  outcome it leaves.
\<close>

definition handler_events :: "exn \<Rightarrow> exn option \<Rightarrow> event list" where
  "handler_events e z = (if is_Exception e then [(Print (''Error: '' @ str_exn e), z)] else [])"

definition handler_output :: "exn \<Rightarrow> exn option \<Rightarrow> string list" where
  "handler_output e z = (if is_Exception e \<and> z = None then [''Error: '' @ str_exn e] else [])"

definition handled :: "exn \<Rightarrow> exn option \<Rightarrow> (exn + unit)" where
  "handled e z = (if is_Exception e then after_final z (Inr ()) else Inl e)"

inductive ipad_outcome :: "(exn + unit) \<times> world \<Rightarrow> bool" where
  enter_raises:
    "ipad_outcome (Inl e,
       \<lparr>events = [(SyncPlaywrightEnter, Some e)],
        files = [],
        stdout = []\<rparr>)"
| launch_raises:
    "ipad_outcome (after_final x (Inl e),
       \<lparr>events = [(SyncPlaywrightEnter, None),
                 (Launch True, Some e),
                 (SyncPlaywrightExit, x)],
        files = [],
        stdout = []\<rparr>)"
| new_context_raises:
    "ipad_outcome (after_final x (Inl e),
       \<lparr>events = [(SyncPlaywrightEnter, None),
                 (Launch True, None),
                 (NewContext 834 1194 ipad_user_agent, Some e),
                 (SyncPlaywrightExit, x)],
        files = [],
        stdout = []\<rparr>)"
| new_page_raises:
    "ipad_outcome (after_final x (Inl e),
       \<lparr>events = [(SyncPlaywrightEnter, None),
                 (Launch True, None),
                 (NewContext 834 1194 ipad_user_agent, None),
                 (ContextNewPage, Some e),
                 (SyncPlaywrightExit, x)],
        files = [],
        stdout = []\<rparr>)"
| goto_raises:
    "ipad_outcome (after_final x (after_final y (handled e z)),
       \<lparr>events = [(SyncPlaywrightEnter, None),
                 (Launch True, None),
                 (NewContext 834 1194 ipad_user_agent, None),
                 (ContextNewPage, None),
                 (Goto ''http://localhost:3000'', Some e)]
                 @ handler_events e z @ [(BrowserClose, y), (SyncPlaywrightExit, x)],
        files = [],
        stdout = handler_output e z\<rparr>)"
| wait_home_raises:
    "ipad_outcome (after_final x (after_final y (handled e z)),
       \<lparr>events = [(SyncPlaywrightEnter, None),
                 (Launch True, None),
                 (NewContext 834 1194 ipad_user_agent, None),
                 (ContextNewPage, None),
                 (Goto ''http://localhost:3000'', None),
                 (WaitForSelector ''text=Recent Heat'' (Some 10000) None, Some e)]
                 @ handler_events e z @ [(BrowserClose, y), (SyncPlaywrightExit, x)],
        files = [],
        stdout = handler_output e z\<rparr>)"
| shot_home_raises:
    "ipad_outcome (after_final x (after_final y (handled e z)),
       \<lparr>events = [(SyncPlaywrightEnter, None),
                 (Launch True, None),
                 (NewContext 834 1194 ipad_user_agent, None),
                 (ContextNewPage, None),
                 (Goto ''http://localhost:3000'', None),
                 (WaitForSelector ''text=Recent Heat'' (Some 10000) None, None),
                 (Screenshot ''verification/home_ipad.png'', Some e)]
                 @ handler_events e z @ [(BrowserClose, y), (SyncPlaywrightExit, x)],
        files = [],
        stdout = handler_output e z\<rparr>)"
| print_home_raises:
    "ipad_outcome (after_final x (after_final y (handled e z)),
       \<lparr>events = [(SyncPlaywrightEnter, None),
                 (Launch True, None),
                 (NewContext 834 1194 ipad_user_agent, None),
                 (ContextNewPage, None),
                 (Goto ''http://localhost:3000'', None),
                 (WaitForSelector ''text=Recent Heat'' (Some 10000) None, None),
                 (Screenshot ''verification/home_ipad.png'', None),
                 (Print ''Home screenshot taken'', Some e)]
                 @ handler_events e z @ [(BrowserClose, y), (SyncPlaywrightExit, x)],
        files = [''verification/home_ipad.png''],
        stdout = handler_output e z\<rparr>)"
| click_library_raises:
    "ipad_outcome (after_final x (after_final y (handled e z)),
       \<lparr>events = [(SyncPlaywrightEnter, None),
                 (Launch True, None),
                 (NewContext 834 1194 ipad_user_agent, None),
                 (ContextNewPage, None),
                 (Goto ''http://localhost:3000'', None),
                 (WaitForSelector ''text=Recent Heat'' (Some 10000) None, None),
                 (Screenshot ''verification/home_ipad.png'', None),
                 (Print ''Home screenshot taken'', None),
                 (Click ''text=Library'', Some e)]
                 @ handler_events e z @ [(BrowserClose, y), (SyncPlaywrightExit, x)],
        files = [''verification/home_ipad.png''],
        stdout = [''Home screenshot taken''] @ handler_output e z\<rparr>)"
| wait_library_raises:
    "ipad_outcome (after_final x (after_final y (handled e z)),
       \<lparr>events = [(SyncPlaywrightEnter, None),
                 (Launch True, None),
                 (NewContext 834 1194 ipad_user_agent, None),
                 (ContextNewPage, None),
                 (Goto ''http://localhost:3000'', None),
                 (WaitForSelector ''text=Recent Heat'' (Some 10000) None, None),
                 (Screenshot ''verification/home_ipad.png'', None),
                 (Print ''Home screenshot taken'', None),
                 (Click ''text=Library'', None),
                 (WaitForTimeout 500, Some e)]
                 @ handler_events e z @ [(BrowserClose, y), (SyncPlaywrightExit, x)],
        files = [''verification/home_ipad.png''],
        stdout = [''Home screenshot taken''] @ handler_output e z\<rparr>)"
| shot_library_raises:
    "ipad_outcome (after_final x (after_final y (handled e z)),
       \<lparr>events = [(SyncPlaywrightEnter, None),
                 (Launch True, None),
                 (NewContext 834 1194 ipad_user_agent, None),
                 (ContextNewPage, None),
                 (Goto ''http://localhost:3000'', None),
                 (WaitForSelector ''text=Recent Heat'' (Some 10000) None, None),
                 (Screenshot ''verification/home_ipad.png'', None),
                 (Print ''Home screenshot taken'', None),
                 (Click ''text=Library'', None),
                 (WaitForTimeout 500, None),
                 (Screenshot ''verification/library_ipad.png'', Some e)]
                 @ handler_events e z @ [(BrowserClose, y), (SyncPlaywrightExit, x)],
        files = [''verification/home_ipad.png''],
        stdout = [''Home screenshot taken''] @ handler_output e z\<rparr>)"
| print_library_raises:
    "ipad_outcome (after_final x (after_final y (handled e z)),
       \<lparr>events = [(SyncPlaywrightEnter, None),
                 (Launch True, None),
                 (NewContext 834 1194 ipad_user_agent, None),
                 (ContextNewPage, None),
                 (Goto ''http://localhost:3000'', None),
                 (WaitForSelector ''text=Recent Heat'' (Some 10000) None, None),
                 (Screenshot ''verification/home_ipad.png'', None),
                 (Print ''Home screenshot taken'', None),
                 (Click ''text=Library'', None),
                 (WaitForTimeout 500, None),
                 (Screenshot ''verification/library_ipad.png'', None),
                 (Print ''Library screenshot taken'', Some e)]
                 @ handler_events e z @ [(BrowserClose, y), (SyncPlaywrightExit, x)],
        files = [''verification/home_ipad.png'', ''verification/library_ipad.png''],
        stdout = [''Home screenshot taken''] @ handler_output e z\<rparr>)"
| click_search_raises:
    "ipad_outcome (after_final x (after_final y (handled e z)),
       \<lparr>events = [(SyncPlaywrightEnter, None),
                 (Launch True, None),
                 (NewContext 834 1194 ipad_user_agent, None),
                 (ContextNewPage, None),
                 (Goto ''http://localhost:3000'', None),
                 (WaitForSelector ''text=Recent Heat'' (Some 10000) None, None),
                 (Screenshot ''verification/home_ipad.png'', None),
                 (Print ''Home screenshot taken'', None),
                 (Click ''text=Library'', None),
                 (WaitForTimeout 500, None),
                 (Screenshot ''verification/library_ipad.png'', None),
                 (Print ''Library screenshot taken'', None),
                 (Click ''text=Search'', Some e)]
                 @ handler_events e z @ [(BrowserClose, y), (SyncPlaywrightExit, x)],
        files = [''verification/home_ipad.png'', ''verification/library_ipad.png''],
        stdout = [''Home screenshot taken'', ''Library screenshot taken''] @ handler_output e z\<rparr>)"
| wait_search_raises:
    "ipad_outcome (after_final x (after_final y (handled e z)),
       \<lparr>events = [(SyncPlaywrightEnter, None),
                 (Launch True, None),
                 (NewContext 834 1194 ipad_user_agent, None),
                 (ContextNewPage, None),
                 (Goto ''http://localhost:3000'', None),
                 (WaitForSelector ''text=Recent Heat'' (Some 10000) None, None),
                 (Screenshot ''verification/home_ipad.png'', None),
                 (Print ''Home screenshot taken'', None),
                 (Click ''text=Library'', None),
                 (WaitForTimeout 500, None),
                 (Screenshot ''verification/library_ipad.png'', None),
                 (Print ''Library screenshot taken'', None),
                 (Click ''text=Search'', None),
                 (WaitForTimeout 500, Some e)]
                 @ handler_events e z @ [(BrowserClose, y), (SyncPlaywrightExit, x)],
        files = [''verification/home_ipad.png'', ''verification/library_ipad.png''],
        stdout = [''Home screenshot taken'', ''Library screenshot taken''] @ handler_output e z\<rparr>)"
| shot_search_raises:
    "ipad_outcome (after_final x (after_final y (handled e z)),
       \<lparr>events = [(SyncPlaywrightEnter, None),
                 (Launch True, None),
                 (NewContext 834 1194 ipad_user_agent, None),
                 (ContextNewPage, None),
                 (Goto ''http://localhost:3000'', None),
                 (WaitForSelector ''text=Recent Heat'' (Some 10000) None, None),
                 (Screenshot ''verification/home_ipad.png'', None),
                 (Print ''Home screenshot taken'', None),
                 (Click ''text=Library'', None),
                 (WaitForTimeout 500, None),
                 (Screenshot ''verification/library_ipad.png'', None),
                 (Print ''Library screenshot taken'', None),
                 (Click ''text=Search'', None),
                 (WaitForTimeout 500, None),
                 (Screenshot ''verification/search_ipad.png'', Some e)]
                 @ handler_events e z @ [(BrowserClose, y), (SyncPlaywrightExit, x)],
        files = [''verification/home_ipad.png'', ''verification/library_ipad.png''],
        stdout = [''Home screenshot taken'', ''Library screenshot taken''] @ handler_output e z\<rparr>)"
| print_search_raises:
    "ipad_outcome (after_final x (after_final y (handled e z)),
       \<lparr>events = [(SyncPlaywrightEnter, None),
                 (Launch True, None),
                 (NewContext 834 1194 ipad_user_agent, None),
                 (ContextNewPage, None),
                 (Goto ''http://localhost:3000'', None),
                 (WaitForSelector ''text=Recent Heat'' (Some 10000) None, None),
                 (Screenshot ''verification/home_ipad.png'', None),
                 (Print ''Home screenshot taken'', None),
                 (Click ''text=Library'', None),
                 (WaitForTimeout 500, None),
                 (Screenshot ''verification/library_ipad.png'', None),
                 (Print ''Library screenshot taken'', None),
                 (Click ''text=Search'', None),
                 (WaitForTimeout 500, None),
                 (Screenshot ''verification/search_ipad.png'', None),
                 (Print ''Search screenshot taken'', Some e)]
                 @ handler_events e z @ [(BrowserClose, y), (SyncPlaywrightExit, x)],
        files = [''verification/home_ipad.png'', ''verification/library_ipad.png'', ''verification/search_ipad.png''],
        stdout = [''Home screenshot taken'', ''Library screenshot taken''] @ handler_output e z\<rparr>)"
| completes:
    "ipad_outcome (after_final x (after_final y (Inr ())),
       \<lparr>events = [(SyncPlaywrightEnter, None),
                 (Launch True, None),
                 (NewContext 834 1194 ipad_user_agent, None),
                 (ContextNewPage, None),
                 (Goto ''http://localhost:3000'', None),
                 (WaitForSelector ''text=Recent Heat'' (Some 10000) None, None),
                 (Screenshot ''verification/home_ipad.png'', None),
                 (Print ''Home screenshot taken'', None),
                 (Click ''text=Library'', None),
                 (WaitForTimeout 500, None),
                 (Screenshot ''verification/library_ipad.png'', None),
                 (Print ''Library screenshot taken'', None),
                 (Click ''text=Search'', None),
                 (WaitForTimeout 500, None),
                 (Screenshot ''verification/search_ipad.png'', None),
                 (Print ''Search screenshot taken'', None),
                 (BrowserClose, y),
                 (SyncPlaywrightExit, x)],
        files = [''verification/home_ipad.png'', ''verification/library_ipad.png'', ''verification/search_ipad.png''],
        stdout = [''Home screenshot taken'', ''Library screenshot taken'', ''Search screenshot taken'']\<rparr>)"

inductive player_outcome :: "env \<Rightarrow> (exn + unit) \<times> world \<Rightarrow> bool" for E :: env where
  enter_raises:
    "player_outcome E (Inl e,
       \<lparr>events = [(SyncPlaywrightEnter, Some e)],
        files = [],
        stdout = []\<rparr>)"
| launch_raises:
    "player_outcome E (after_final x (Inl e),
       \<lparr>events = [(SyncPlaywrightEnter, None),
                 (Launch True, Some e),
                 (SyncPlaywrightExit, x)],
        files = [],
        stdout = []\<rparr>)"
| new_page_raises:
    "player_outcome E (after_final x (Inl e),
       \<lparr>events = [(SyncPlaywrightEnter, None),
                 (Launch True, None),
                 (BrowserNewPage, Some e),
                 (SyncPlaywrightExit, x)],
        files = [],
        stdout = []\<rparr>)"
| goto_raises:
    "player_outcome E (after_final x (after_final y (Inl e)),
       \<lparr>events = [(SyncPlaywrightEnter, None),
                 (Launch True, None),
                 (BrowserNewPage, None),
                 (Goto ''http://localhost:3000'', Some e),
                 (BrowserClose, y),
                 (SyncPlaywrightExit, x)],
        files = [],
        stdout = []\<rparr>)"
| wait_raises:
    "player_outcome E (after_final x (after_final y (Inl e)),
       \<lparr>events = [(SyncPlaywrightEnter, None),
                 (Launch True, None),
                 (BrowserNewPage, None),
                 (Goto ''http://localhost:3000'', None),
                 (WaitForSelector ''h1'' None (Some ''visible''), Some e),
                 (BrowserClose, y),
                 (SyncPlaywrightExit, x)],
        files = [],
        stdout = []\<rparr>)"
| getcwd_raises:
    "getcwd E = Inl e \<Longrightarrow>
     player_outcome E (after_final x (after_final y (Inl e)),
       \<lparr>events = [(SyncPlaywrightEnter, None),
                 (Launch True, None),
                 (BrowserNewPage, None),
                 (Goto ''http://localhost:3000'', None),
                 (WaitForSelector ''h1'' None (Some ''visible''), None),
                 (GetCwd, Some e),
                 (BrowserClose, y),
                 (SyncPlaywrightExit, x)],
        files = [],
        stdout = []\<rparr>)"
| shot_raises:
    "getcwd E = Inr d \<Longrightarrow>
     player_outcome E (after_final x (after_final y (Inl e)),
       \<lparr>events = [(SyncPlaywrightEnter, None),
                 (Launch True, None),
                 (BrowserNewPage, None),
                 (Goto ''http://localhost:3000'', None),
                 (WaitForSelector ''h1'' None (Some ''visible''), None),
                 (GetCwd, None),
                 (Screenshot (path_join d ''verification/home.png''), Some e),
                 (BrowserClose, y),
                 (SyncPlaywrightExit, x)],
        files = [],
        stdout = []\<rparr>)"
| print_raises:
    "getcwd E = Inr d \<Longrightarrow>
     player_outcome E (after_final x (after_final y (Inl e)),
       \<lparr>events = [(SyncPlaywrightEnter, None),
                 (Launch True, None),
                 (BrowserNewPage, None),
                 (Goto ''http://localhost:3000'', None),
                 (WaitForSelector ''h1'' None (Some ''visible''), None),
                 (GetCwd, None),
                 (Screenshot (path_join d ''verification/home.png''), None),
                 (Print (''Home screenshot taken at '' @ path_join d ''verification/home.png''), Some e),
                 (BrowserClose, y),
                 (SyncPlaywrightExit, x)],
        files = [path_join d ''verification/home.png''],
        stdout = []\<rparr>)"
| completes:
    "getcwd E = Inr d \<Longrightarrow>
     player_outcome E (after_final x (after_final y (Inr ())),
       \<lparr>events = [(SyncPlaywrightEnter, None),
                 (Launch True, None),
                 (BrowserNewPage, None),
                 (Goto ''http://localhost:3000'', None),
                 (WaitForSelector ''h1'' None (Some ''visible''), None),
                 (GetCwd, None),
                 (Screenshot (path_join d ''verification/home.png''), None),
                 (Print (''Home screenshot taken at '' @ path_join d ''verification/home.png''), None),
                 (BrowserClose, y),
                 (SyncPlaywrightExit, x)],
        files = [path_join d ''verification/home.png''],
        stdout = [''Home screenshot taken at '' @ path_join d ''verification/home.png'']\<rparr>)"

subsection \<open>Concrete environments\<close>

text \<open>Every call returns; the scripts are started in directory \<open>d\<close>.\<close>

definition all_return :: "string \<Rightarrow> env" where
  "all_return d =
     \<lparr>respond = (\<lambda>h c. None), print_answer = (\<lambda>h s. None), getcwd = Inr d\<rparr>"

text \<open>
  The calls listed in \<open>tbl\<close> raise the exception listed with them, whenever they are
  made; every other call returns. The scripts are started in \<^verbatim>\<open>/home/user/music\<close>.
\<close>

definition raising :: "(call \<times> exn) list \<Rightarrow> env" where
  "raising tbl =
     \<lparr>respond = (\<lambda>h c. map_of tbl c),
      print_answer = (\<lambda>h s. map_of tbl (Print s)),
      getcwd = Inr ''/home/user/music''\<rparr>"

text \<open>The call \<open>c\<close> raises \<open>e\<close> whenever it is made; every other call returns.\<close>

definition raising_at :: "call \<Rightarrow> exn \<Rightarrow> env" where
  "raising_at c e = raising [(c, e)]"

text \<open>Every call returns, but the working directory of the process has been removed.\<close>

definition cwd_removed :: env where
  "cwd_removed =
     \<lparr>respond = (\<lambda>h c. None), print_answer = (\<lambda>h s. None),
      getcwd = Inl (OSError ''[Errno 2] No such file or directory'')\<rparr>"

section \<open>Every run has one of the listed outcomes\<close>

text \<open>
  The statements of a script are evaluated one at a time on a world whose three fields
  are written out, so that a call is unfolded only once the world it runs in is known.
\<close>

lemma lib_call_world:
  "lib_call E c \<lparr>events = ev, files = fs, stdout = out\<rparr> =
     (case respond E ev c of
        None \<Rightarrow> (Inr (), effect c \<lparr>events = ev @ [(c, None)], files = fs, stdout = out\<rparr>)
      | Some e \<Rightarrow> (Inl e, \<lparr>events = ev @ [(c, Some e)], files = fs, stdout = out\<rparr>))"
  by (simp add: lib_call_def split: option.splits)

lemma print_line_world:
  "print_line E s \<lparr>events = ev, files = fs, stdout = out\<rparr> =
     (case print_answer E ev s of
        None \<Rightarrow> (Inr (), \<lparr>events = ev @ [(Print s, None)], files = fs, stdout = out @ [s]\<rparr>)
      | Some e \<Rightarrow> (Inl e, \<lparr>events = ev @ [(Print s, Some e)], files = fs, stdout = out\<rparr>))"
  by (simp add: print_line_def split: option.splits)

lemma os_getcwd_world:
  "os_getcwd E \<lparr>events = ev, files = fs, stdout = out\<rparr> =
     (case getcwd E of
        Inr d \<Rightarrow> (Inr d, \<lparr>events = ev @ [(GetCwd, None)], files = fs, stdout = out\<rparr>)
      | Inl e \<Rightarrow> (Inl e, \<lparr>events = ev @ [(GetCwd, Some e)], files = fs, stdout = out\<rparr>))"
  by (simp add: os_getcwd_def split: sum.splits)

lemma handler_simps:
  "is_Exception e \<Longrightarrow> handler_events e z = [(Print (''Error: '' @ str_exn e), z)]"
  "\<not> is_Exception e \<Longrightarrow> handler_events e z = []"
  "is_Exception e \<Longrightarrow> handler_output e None = [''Error: '' @ str_exn e]"
  "is_Exception e \<Longrightarrow> handler_output e (Some e') = []"
  "\<not> is_Exception e \<Longrightarrow> handler_output e z = []"
  "is_Exception e \<Longrightarrow> handled e z = after_final z (Inr ())"
  "\<not> is_Exception e \<Longrightarrow> handled e z = Inl e"
  by (simp_all add: handler_events_def handler_output_def handled_def)

text \<open>
  The two final calls write no file, so what they do to a finished block can be written
  with their answer left open.
\<close>

lemma final_close_world:
  "(case (case respond E ev BrowserClose of
            None \<Rightarrow> (Inr (), effect BrowserClose
                \<lparr>events = ev @ [(BrowserClose, None)], files = fs, stdout = out\<rparr>)
          | Some e \<Rightarrow> (Inl e,
                \<lparr>events = ev @ [(BrowserClose, Some e)], files = fs, stdout = out\<rparr>)) of
      (Inl e, w'') \<Rightarrow> (Inl e, w'')
    | (Inr u, w'') \<Rightarrow> (r, w'')) =
   (after_final (respond E ev BrowserClose) r,
    \<lparr>events = ev @ [(BrowserClose, respond E ev BrowserClose)], files = fs, stdout = out\<rparr>)"
  by (simp split: option.splits)

lemma final_exit_world:
  "(case (case respond E ev SyncPlaywrightExit of
            None \<Rightarrow> (Inr (), effect SyncPlaywrightExit
                \<lparr>events = ev @ [(SyncPlaywrightExit, None)], files = fs, stdout = out\<rparr>)
          | Some e \<Rightarrow> (Inl e,
                \<lparr>events = ev @ [(SyncPlaywrightExit, Some e)], files = fs, stdout = out\<rparr>)) of
      (Inl e, w'') \<Rightarrow> (Inl e, w'')
    | (Inr u, w'') \<Rightarrow> (r, w'')) =
   (after_final (respond E ev SyncPlaywrightExit) r,
    \<lparr>events = ev @ [(SyncPlaywrightExit, respond E ev SyncPlaywrightExit)],
     files = fs, stdout = out\<rparr>)"
  by (simp split: option.splits)

lemma block_end:
  "(case r of Inl e \<Rightarrow> (Inl e, w) | Inr u \<Rightarrow> block [] w) = (r, w)"
  by (cases r) simp_all

lemmas step = block_end lib_call_world print_line_world os_getcwd_world assign_def
  with_sync_playwright_def try_finally_def try_except_Exception_def init_world_def
  final_close_world final_exit_world

lemma verify_app_run: "ipad_outcome (verify_app E init_world)"
  unfolding verify_app_def
  apply (simp add: step
         | (split option.split, intro conjI impI allI;
              ((thin_tac "respond E _ _ = _")?, (thin_tac "print_answer E _ _ = _")?))
         | simp add: handler_simps ipad_outcome.simps)+
  done

lemma main_player_run: "player_outcome E (main_player E init_world)"
  unfolding main_player_def verify_audio_player_def
  apply (simp add: step Let_def
         | (split option.split sum.split, intro conjI impI allI;
              ((thin_tac "respond E _ _ = _")?, (thin_tac "print_answer E _ _ = _")?))
         | simp add: player_outcome.simps)+
  done

lemma verify_app_outcome:
  "verify_app E init_world = (r, w) \<Longrightarrow> ipad_outcome (r, w)"
  using verify_app_run [of E] by simp

lemma main_player_outcome:
  "main_player E init_world = (r, w) \<Longrightarrow> player_outcome E (r, w)"
  using main_player_run [of E] by simp

text \<open>Runs in concrete environments, evaluated.\<close>

lemma verify_app_all_return:
  "verify_app (all_return d) init_world =
     (Inr (),
      \<lparr>events = [(SyncPlaywrightEnter, None),
                (Launch True, None),
                (NewContext 834 1194 ipad_user_agent, None),
                (ContextNewPage, None),
                (Goto ''http://localhost:3000'', None),
                (WaitForSelector ''text=Recent Heat'' (Some 10000) None, None),
                (Screenshot ''verification/home_ipad.png'', None),
                (Print ''Home screenshot taken'', None),
                (Click ''text=Library'', None),
                (WaitForTimeout 500, None),
                (Screenshot ''verification/library_ipad.png'', None),
                (Print ''Library screenshot taken'', None),
                (Click ''text=Search'', None),
                (WaitForTimeout 500, None),
                (Screenshot ''verification/search_ipad.png'', None),
                (Print ''Search screenshot taken'', None),
                (BrowserClose, None),
                (SyncPlaywrightExit, None)],
       files = [''verification/home_ipad.png'', ''verification/library_ipad.png'', ''verification/search_ipad.png''],
       stdout = [''Home screenshot taken'', ''Library screenshot taken'', ''Search screenshot taken'']\<rparr>)"
  by (simp add: verify_app_def step all_return_def raising_at_def raising_def)

lemma main_player_all_return:
  "main_player (all_return d) init_world =
     (Inr (),
      \<lparr>events = [(SyncPlaywrightEnter, None),
                (Launch True, None),
                (BrowserNewPage, None),
                (Goto ''http://localhost:3000'', None),
                (WaitForSelector ''h1'' None (Some ''visible''), None),
                (GetCwd, None),
                (Screenshot (path_join d ''verification/home.png''), None),
                (Print (''Home screenshot taken at '' @ path_join d ''verification/home.png''), None),
                (BrowserClose, None),
                (SyncPlaywrightExit, None)],
       files = [path_join d ''verification/home.png''],
       stdout = [''Home screenshot taken at '' @ path_join d ''verification/home.png'']\<rparr>)"
  by (simp add: main_player_def verify_audio_player_def step Let_def all_return_def raising_at_def raising_def cwd_removed_def)

lemma verify_app_library_missing:
  "verify_app 
     (raising_at (Click ''text=Library'') (TimeoutError ''Timeout 30000ms exceeded.''))
     init_world =
     (Inr (),
      \<lparr>events = [(SyncPlaywrightEnter, None),
                (Launch True, None),
                (NewContext 834 1194 ipad_user_agent, None),
                (ContextNewPage, None),
                (Goto ''http://localhost:3000'', None),
                (WaitForSelector ''text=Recent Heat'' (Some 10000) None, None),
                (Screenshot ''verification/home_ipad.png'', None),
                (Print ''Home screenshot taken'', None),
                (Click ''text=Library'', Some (TimeoutError ''Timeout 30000ms exceeded.'')),
                (Print ''Error: Timeout 30000ms exceeded.'', None),
                (BrowserClose, None),
                (SyncPlaywrightExit, None)],
       files = [''verification/home_ipad.png''],
       stdout = [''Home screenshot taken'', ''Error: Timeout 30000ms exceeded.'']\<rparr>)"
  by (simp add: verify_app_def step all_return_def raising_at_def raising_def)


lemma verify_app_no_context:
  "verify_app 
     (raising_at (NewContext 834 1194 ipad_user_agent) (Error ''Target closed''))
     init_world =
     (Inl (Error ''Target closed''),
      \<lparr>events = [(SyncPlaywrightEnter, None),
                (Launch True, None),
                (NewContext 834 1194 ipad_user_agent, Some (Error ''Target closed'')),
                (SyncPlaywrightExit, None)],
       files = [],
       stdout = []\<rparr>)"
  by (simp add: verify_app_def step all_return_def raising_at_def raising_def)

lemma verify_app_stdout_full:
  "verify_app 
     (raising_at (Print ''Home screenshot taken'') (OSError ''[Errno 28] No space left on device''))
     init_world =
     (Inr (),
      \<lparr>events = [(SyncPlaywrightEnter, None),
                (Launch True, None),
                (NewContext 834 1194 ipad_user_agent, None),
                (ContextNewPage, None),
                (Goto ''http://localhost:3000'', None),
                (WaitForSelector ''text=Recent Heat'' (Some 10000) None, None),
                (Screenshot ''verification/home_ipad.png'', None),
                (Print ''Home screenshot taken'', Some (OSError ''[Errno 28] No space left on device'')),
                (Print ''Error: [Errno 28] No space left on device'', None),
                (BrowserClose, None),
                (SyncPlaywrightExit, None)],
       files = [''verification/home_ipad.png''],
       stdout = [''Error: [Errno 28] No space left on device'']\<rparr>)"
  by (simp add: verify_app_def step all_return_def raising_at_def raising_def)



lemma main_player_unreachable:
  "main_player 
     (raising_at (Goto ''http://localhost:3000'') (Error ''net::ERR_CONNECTION_REFUSED''))
     init_world =
     (Inl (Error ''net::ERR_CONNECTION_REFUSED''),
      \<lparr>events = [(SyncPlaywrightEnter, None),
                (Launch True, None),
                (BrowserNewPage, None),
                (Goto ''http://localhost:3000'', Some (Error ''net::ERR_CONNECTION_REFUSED'')),
                (BrowserClose, None),
                (SyncPlaywrightExit, None)],
       files = [],
       stdout = []\<rparr>)"
  by (simp add: main_player_def verify_audio_player_def step Let_def all_return_def raising_at_def raising_def cwd_removed_def)

lemma main_player_no_page:
  "main_player (raising_at BrowserNewPage (Error ''Target closed'')) init_world =
     (Inl (Error ''Target closed''),
      \<lparr>events = [(SyncPlaywrightEnter, None),
                (Launch True, None),
                (BrowserNewPage, Some (Error ''Target closed'')),
                (SyncPlaywrightExit, None)],
       files = [],
       stdout = []\<rparr>)"
  by (simp add: main_player_def verify_audio_player_def step Let_def all_return_def raising_at_def raising_def cwd_removed_def)


text \<open>Facts for reading an outcome.\<close>

lemma after_final_Inl [simp]:
  "after_final x r = Inl e \<longleftrightarrow> x = Some e \<or> (x = None \<and> r = Inl e)"
  by (cases x) auto

lemma after_final_Inr [simp]:
  "after_final x r = Inr u \<longleftrightarrow> x = None \<and> r = Inr u"
  by (cases x) auto

lemma exits_zero_after_final [simp]:
  "exits_zero (after_final x r) \<longleftrightarrow> x = None \<and> exits_zero r"
  by (cases x) auto

lemmas obs = calls_def succeeded_def raised_def first_ok_def
  handled_def handler_events_def handler_output_def try_block_call_def

lemma upto_6: "(k::nat) \<le> 6 \<Longrightarrow> k = 0 \<or> k = 1 \<or> k = 2 \<or> k = 3 \<or> k = 4 \<or> k = 5 \<or> k = 6"
  by arith

lemma from_7_upto_14:
  "(7::nat) \<le> k \<Longrightarrow> k \<le> 14 \<Longrightarrow>
     k = 7 \<or> k = 8 \<or> k = 9 \<or> k = 10 \<or> k = 11 \<or> k = 12 \<or> k = 13 \<or> k = 14"
  by arith


text \<open>The screenshot files of the iPad runner, in the order of writing.\<close>

lemma verify_app_files:
  assumes "verify_app E init_world = (r, w)"
  shows "prefix (files w)
           [''verification/home_ipad.png'', ''verification/library_ipad.png'',
            ''verification/search_ipad.png'']"
  using verify_app_outcome [OF assms] by cases simp_all

lemma prefixes_of_one_list:
  assumes "prefix xs zs" and "prefix ys zs"
  shows "(prefix xs ys \<or> prefix ys xs) \<and> (length xs = length ys \<longrightarrow> xs = ys)"
proof -
  from assms have cmp: "prefix xs ys \<or> prefix ys xs"
    by (rule prefix_same_cases)
  have "xs = ys" if len: "length xs = length ys"
    using cmp len by (auto simp: prefix_def)
  with cmp show ?thesis
    by simp
qed

section \<open>The iPad runner: screenshots\<close>

text \<open>
  C1. On invocation the iPad runner enters the Playwright scope, launches the browser,
  creates a context with viewport 834 by 1194 and the literal iPad user agent written out
  below, opens a page, navigates to \<^verbatim>\<open>http://localhost:3000\<close> and waits for an element
  with the text "Recent Heat" with a timeout of 10000 milliseconds; each call is made when
  the calls before it returned. When the wait returned, the next call is the screenshot to
  \<^verbatim>\<open>verification/home_ipad.png\<close>, and when that call returned, the file is the first one
  written; "Home screenshot taken" is the first line printed when the print returned too.
\<close>

theorem ipad_home_screenshot:
  assumes run: "verify_app E init_world = (r, w)"
    and k: "k \<le> 6"
    and ok: "first_ok k w"
  shows "take (Suc k) (calls w) =
         take (Suc k)
           [SyncPlaywrightEnter,
            Launch True,
            NewContext 834 1194
              ''Mozilla/5.0 (iPad; CPU OS 11_0 like Mac OS X) AppleWebKit/604.1.34 (KHTML, like Gecko) Version/11.0 Mobile/15A5341f Safari/604.1'',
            ContextNewPage,
            Goto ''http://localhost:3000'',
            WaitForSelector ''text=Recent Heat'' (Some 10000) None,
            Screenshot ''verification/home_ipad.png'']
       \<and> (first_ok 7 w \<longrightarrow> take 1 (files w) = [''verification/home_ipad.png''])
       \<and> (first_ok 8 w \<longrightarrow> take 1 (stdout w) = [''Home screenshot taken''])"
proof -
  note ks = upto_6 [OF k]
  from verify_app_outcome [OF run] ok ks have
    "take (Suc k) (calls w) =
         take (Suc k)
           [SyncPlaywrightEnter,
            Launch True,
            NewContext 834 1194 ipad_user_agent,
            ContextNewPage,
            Goto ''http://localhost:3000'',
            WaitForSelector ''text=Recent Heat'' (Some 10000) None,
            Screenshot ''verification/home_ipad.png'']
       \<and> (first_ok 7 w \<longrightarrow> take 1 (files w) = [''verification/home_ipad.png''])
       \<and> (first_ok 8 w \<longrightarrow> take 1 (stdout w) = [''Home screenshot taken''])"
    by cases (auto simp: obs)
  then show ?thesis
    unfolding ipad_user_agent_def .
qed

theorem ipad_home_screenshot_witness:
  "first_ok 6 (snd (verify_app (all_return ''/home/user/music'') init_world))
   \<and> take 7 (calls (snd (verify_app (all_return ''/home/user/music'') init_world))) =
       [SyncPlaywrightEnter,
        Launch True,
        NewContext 834 1194
          ''Mozilla/5.0 (iPad; CPU OS 11_0 like Mac OS X) AppleWebKit/604.1.34 (KHTML, like Gecko) Version/11.0 Mobile/15A5341f Safari/604.1'',
        ContextNewPage,
        Goto ''http://localhost:3000'',
        WaitForSelector ''text=Recent Heat'' (Some 10000) None,
        Screenshot ''verification/home_ipad.png'']
   \<and> take 1 (files (snd (verify_app (all_return ''/home/user/music'') init_world))) =
       [''verification/home_ipad.png'']"
proof -
  let ?run = "verify_app (all_return ''/home/user/music'') init_world"
  have run: "?run = (fst ?run, snd ?run)"
    by simp
  have ok: "first_ok 6 (snd ?run)" and ok': "first_ok 7 (snd ?run)"
    by (simp_all add: verify_app_all_return first_ok_def)
  from ipad_home_screenshot [OF run _ ok] ok ok' show ?thesis
    by simp
qed

text \<open>
  C2, as stated: after the home screenshot succeeds the runner clicks "Library". It does
  not always: the line "Home screenshot taken" is printed in between, and when that
  \<^verbatim>\<open>print\<close> raises (here the standard output cannot be written) the home screenshot has
  been written but no click follows and no further screenshot is taken.
\<close>

theorem no_click_when_print_fails:
  "succeeded (Screenshot ''verification/home_ipad.png'')
     (snd (verify_app
        (raising_at (Print ''Home screenshot taken'')
           (OSError ''[Errno 28] No space left on device''))
        init_world))
   \<and> files (snd (verify_app
        (raising_at (Print ''Home screenshot taken'')
           (OSError ''[Errno 28] No space left on device''))
        init_world)) = [''verification/home_ipad.png'']
   \<and> Click ''text=Library'' \<notin> set (calls (snd (verify_app
        (raising_at (Print ''Home screenshot taken'')
           (OSError ''[Errno 28] No space left on device''))
        init_world)))"
  by (simp add: verify_app_stdout_full succeeded_def calls_def)

text \<open>
  C2, amended. After the home screenshot the iPad runner prints "Home screenshot taken",
  clicks the element with text "Library", waits 500 milliseconds, takes the screenshot
  \<^verbatim>\<open>verification/library_ipad.png\<close> and prints "Library screenshot taken", then clicks the
  element with text "Search", waits 500 milliseconds and takes the screenshot
  \<^verbatim>\<open>verification/search_ipad.png\<close>, in that order, each call made when the calls before
  it returned. A screenshot file is written only if the print, the click and the wait
  before it returned, and when all fifteen calls returned the three files are written in
  order.
\<close>

theorem ipad_library_then_search:
  assumes run: "verify_app E init_world = (r, w)"
    and k7: "7 \<le> k"
    and k14: "k \<le> 14"
    and ok: "first_ok k w"
  shows "take (Suc k) (calls w) =
         take (Suc k)
           [SyncPlaywrightEnter,
            Launch True,
            NewContext 834 1194 ipad_user_agent,
            ContextNewPage,
            Goto ''http://localhost:3000'',
            WaitForSelector ''text=Recent Heat'' (Some 10000) None,
            Screenshot ''verification/home_ipad.png'',
            Print ''Home screenshot taken'',
            Click ''text=Library'',
            WaitForTimeout 500,
            Screenshot ''verification/library_ipad.png'',
            Print ''Library screenshot taken'',
            Click ''text=Search'',
            WaitForTimeout 500,
            Screenshot ''verification/search_ipad.png'']
       \<and> (''verification/library_ipad.png'' \<in> set (files w) \<longrightarrow>
            succeeded (Print ''Home screenshot taken'') w \<and>
            succeeded (Click ''text=Library'') w \<and> succeeded (WaitForTimeout 500) w)
       \<and> (''verification/search_ipad.png'' \<in> set (files w) \<longrightarrow>
            succeeded (Print ''Library screenshot taken'') w \<and>
            succeeded (Click ''text=Search'') w \<and> first_ok 14 w)
       \<and> (first_ok 11 w \<longrightarrow>
            take 2 (files w) = [''verification/home_ipad.png'', ''verification/library_ipad.png''])
       \<and> (first_ok 15 w \<longrightarrow>
            files w = [''verification/home_ipad.png'', ''verification/library_ipad.png'',
                       ''verification/search_ipad.png''])"
proof -
  note ks = from_7_upto_14 [OF k7 k14]
  from verify_app_outcome [OF run] ok ks show ?thesis
    by cases (auto simp: obs)
qed

theorem ipad_library_then_search_witness:
  "first_ok 14 (snd (verify_app (all_return ''/home/user/music'') init_world))
   \<and> take 15 (calls (snd (verify_app (all_return ''/home/user/music'') init_world))) =
       [SyncPlaywrightEnter,
        Launch True,
        NewContext 834 1194 ipad_user_agent,
        ContextNewPage,
        Goto ''http://localhost:3000'',
        WaitForSelector ''text=Recent Heat'' (Some 10000) None,
        Screenshot ''verification/home_ipad.png'',
        Print ''Home screenshot taken'',
        Click ''text=Library'',
        WaitForTimeout 500,
        Screenshot ''verification/library_ipad.png'',
        Print ''Library screenshot taken'',
        Click ''text=Search'',
        WaitForTimeout 500,
        Screenshot ''verification/search_ipad.png'']
   \<and> succeeded (Click ''text=Library'')
         (snd (verify_app (all_return ''/home/user/music'') init_world))
   \<and> succeeded (Click ''text=Search'')
         (snd (verify_app (all_return ''/home/user/music'') init_world))
   \<and> files (snd (verify_app (all_return ''/home/user/music'') init_world)) =
       [''verification/home_ipad.png'', ''verification/library_ipad.png'',
        ''verification/search_ipad.png'']"
proof -
  let ?run = "verify_app (all_return ''/home/user/music'') init_world"
  have run: "?run = (fst ?run, snd ?run)"
    by simp
  have ok: "first_ok 14 (snd ?run)" and ok': "first_ok 15 (snd ?run)"
    and fs: "''verification/library_ipad.png'' \<in> set (files (snd ?run))"
            "''verification/search_ipad.png'' \<in> set (files (snd ?run))"
    by (simp_all add: verify_app_all_return first_ok_def)
  from ipad_library_then_search [OF run _ _ ok] ok ok' fs show ?thesis
    by simp
qed

text \<open>
  C10. On every run of the iPad runner the screenshot files written, in the order of
  writing, are a prefix of home, library, search: the library screenshot is written only
  after the home screenshot, and the search screenshot only after the library screenshot.
\<close>

theorem ipad_files_prefix:
  assumes run: "verify_app E init_world = (r, w)"
  shows "prefix (files w)
           [''verification/home_ipad.png'', ''verification/library_ipad.png'',
            ''verification/search_ipad.png'']
       \<and> (''verification/library_ipad.png'' \<in> set (files w) \<longrightarrow>
            ''verification/home_ipad.png'' \<in> set (files w))
       \<and> (''verification/search_ipad.png'' \<in> set (files w) \<longrightarrow>
            ''verification/library_ipad.png'' \<in> set (files w))"
  using verify_app_outcome [OF run]
  by cases simp_all

theorem ipad_files_prefix_witness:
  "files (snd (verify_app
      (raising_at (Click ''text=Library'') (TimeoutError ''Timeout 30000ms exceeded.''))
      init_world)) = [''verification/home_ipad.png'']
   \<and> prefix (files (snd (verify_app
      (raising_at (Click ''text=Library'') (TimeoutError ''Timeout 30000ms exceeded.''))
      init_world)))
       [''verification/home_ipad.png'', ''verification/library_ipad.png'',
        ''verification/search_ipad.png'']"
proof -
  let ?run = "verify_app
      (raising_at (Click ''text=Library'') (TimeoutError ''Timeout 30000ms exceeded.''))
      init_world"
  have run: "?run = (fst ?run, snd ?run)"
    by simp
  from ipad_files_prefix [OF run] show ?thesis
    by (simp add: verify_app_library_missing)
qed

section \<open>The iPad runner: errors\<close>







text \<open>
  C9. In the iPad runner an error raised while launching the browser, creating the
  context or opening the page is not handled: nothing is printed, \<^verbatim>\<open>verify_app\<close> ends
  with an exception (that error, when leaving the Playwright scope returns) and the process
  exits with a non-zero status. Only errors raised inside the \<^verbatim>\<open>try\<close> block, which holds
  the page calls and the progress lines printed between them, are swallowed and logged: a
  printed line "Error: m" is the message of an exception derived from \<^verbatim>\<open>Exception\<close>
  that a call of that block raised, and when \<^verbatim>\<open>verify_app\<close> returns normally although a
  call raised, that call was a call of that block and its exception derived from
  \<^verbatim>\<open>Exception\<close>.
\<close>

theorem ipad_setup_errors_propagate:
  assumes run: "verify_app E init_world = (r, w)"
  shows "(raised c e w \<and> setup_call c \<longrightarrow>
            \<not> exits_zero r \<and> stdout w = [] \<and> files w = [] \<and>
            (succeeded SyncPlaywrightExit w \<longrightarrow> r = Inl e))
       \<and> (\<forall>m. (''Error: '' @ m) \<in> set (stdout w) \<longrightarrow>
            (\<exists>c' e'. raised c' e' w \<and> try_block_call c' \<and> is_Exception e' \<and>
                     m = str_exn e'))
       \<and> (\<forall>c' e'. raised c' e' w \<and> r = Inr () \<longrightarrow> try_block_call c' \<and> is_Exception e')"
proof -
  note out = verify_app_outcome [OF run]
  from out have not_handled:
    "raised c e w \<and> setup_call c \<longrightarrow>
       \<not> exits_zero r \<and> stdout w = [] \<and> files w = [] \<and>
       (succeeded SyncPlaywrightExit w \<longrightarrow> r = Inl e)"
    by cases (auto simp: obs)
  from out have logged:
    "\<forall>m. (''Error: '' @ m) \<in> set (stdout w) \<longrightarrow>
       (\<exists>c' e'. raised c' e' w \<and> try_block_call c' \<and> is_Exception e' \<and> m = str_exn e')"
    by cases (auto simp: obs conj_disj_distribR ex_disj_distrib split: if_splits)
  from out have swallowed:
    "\<forall>c' e'. raised c' e' w \<and> r = Inr () \<longrightarrow> try_block_call c' \<and> is_Exception e'"
    by cases (auto simp: obs split: if_splits)
  from not_handled logged swallowed show ?thesis
    by (intro conjI)
qed

theorem ipad_setup_errors_propagate_witness:
  "raised (NewContext 834 1194 ipad_user_agent) (Error ''Target closed'')
     (snd (verify_app
        (raising_at (NewContext 834 1194 ipad_user_agent) (Error ''Target closed''))
        init_world))
   \<and> fst (verify_app
        (raising_at (NewContext 834 1194 ipad_user_agent) (Error ''Target closed''))
        init_world) = Inl (Error ''Target closed'')
   \<and> stdout (snd (verify_app
        (raising_at (NewContext 834 1194 ipad_user_agent) (Error ''Target closed''))
        init_world)) = []"
proof -
  let ?e = "Error ''Target closed''"
  let ?c = "NewContext 834 1194 ipad_user_agent"
  let ?run = "verify_app (raising_at ?c ?e) init_world"
  have run: "?run = (fst ?run, snd ?run)"
    by simp
  have err: "raised ?c ?e (snd ?run)" and fin: "succeeded SyncPlaywrightExit (snd ?run)"
    by (simp_all add: verify_app_no_context raised_def succeeded_def)
  have stp: "setup_call ?c"
    by simp
  from ipad_setup_errors_propagate [OF run, of ?c ?e] err fin stp show ?thesis
    by simp
qed

section \<open>The player runner\<close>




text \<open>
  C5. When a call on the page of the player runner (navigation, the visibility wait, the
  screenshot) raises, nothing handles the error: the run ends with an exception and the
  process exits with a non-zero status, no screenshot file is written and nothing is
  printed, and \<^verbatim>\<open>browser.close()\<close> is called all the same. The exception that reaches
  the process boundary is the one raised, when closing the browser and leaving the
  Playwright scope return.
\<close>

theorem player_errors_propagate:
  assumes run: "main_player E init_world = (r, w)"
    and err: "raised c e w"
    and page: "page_call c"
  shows "\<not> exits_zero r
       \<and> files w = []
       \<and> stdout w = []
       \<and> BrowserClose \<in> set (calls w)
       \<and> (succeeded BrowserClose w \<and> succeeded SyncPlaywrightExit w \<longrightarrow> r = Inl e)"
  using main_player_outcome [OF run] err page
  by cases (auto simp: obs)

theorem player_errors_propagate_witness:
  "raised (Goto ''http://localhost:3000'') (Error ''net::ERR_CONNECTION_REFUSED'')
     (snd (main_player
        (raising_at (Goto ''http://localhost:3000'') (Error ''net::ERR_CONNECTION_REFUSED''))
        init_world))
   \<and> fst (main_player
        (raising_at (Goto ''http://localhost:3000'') (Error ''net::ERR_CONNECTION_REFUSED''))
        init_world) = Inl (Error ''net::ERR_CONNECTION_REFUSED'')
   \<and> files (snd (main_player
        (raising_at (Goto ''http://localhost:3000'') (Error ''net::ERR_CONNECTION_REFUSED''))
        init_world)) = []
   \<and> BrowserClose \<in> set (calls (snd (main_player
        (raising_at (Goto ''http://localhost:3000'') (Error ''net::ERR_CONNECTION_REFUSED''))
        init_world)))"
proof -
  let ?e = "Error ''net::ERR_CONNECTION_REFUSED''"
  let ?run = "main_player (raising_at (Goto ''http://localhost:3000'') ?e) init_world"
  have run: "?run = (fst ?run, snd ?run)"
    by simp
  have err: "raised (Goto ''http://localhost:3000'') ?e (snd ?run)"
    and fin: "succeeded BrowserClose (snd ?run)" "succeeded SyncPlaywrightExit (snd ?run)"
    by (simp_all add: main_player_unreachable raised_def succeeded_def)
  have page: "page_call (Goto ''http://localhost:3000'')"
    by simp
  from player_errors_propagate [OF run err page] err fin show ?thesis
    by simp
qed

section \<open>Both runners\<close>

text \<open>
  C7. In both runners the launched browser session is released at the end of every run,
  whichever call raised, set-up included: no session is open after the run. On every path
  on which the Playwright scope was entered, leaving that scope is the last call of the
  run; and \<^verbatim>\<open>browser.close()\<close> is called before it exactly when opening the page
  returned, so that a failure while creating the context or the page is released by
  leaving the scope alone.
\<close>

theorem session_released_on_every_path:
  assumes ipad: "verify_app E init_world = (r, w)"
    and player: "main_player E' init_world = (r', w')"
  shows "\<not> session_open w
       \<and> \<not> session_open w'
       \<and> (succeeded SyncPlaywrightEnter w \<longrightarrow> last (calls w) = SyncPlaywrightExit)
       \<and> (succeeded SyncPlaywrightEnter w' \<longrightarrow> last (calls w') = SyncPlaywrightExit)
       \<and> (BrowserClose \<in> set (calls w) \<longleftrightarrow> succeeded ContextNewPage w)
       \<and> (BrowserClose \<in> set (calls w') \<longleftrightarrow> succeeded BrowserNewPage w')"
proof -
  from verify_app_outcome [OF ipad] have
    "\<not> session_open w
       \<and> (succeeded SyncPlaywrightEnter w \<longrightarrow> last (calls w) = SyncPlaywrightExit)
       \<and> (BrowserClose \<in> set (calls w) \<longleftrightarrow> succeeded ContextNewPage w)"
    by cases (auto simp: obs session_open_def)
  moreover from main_player_outcome [OF player] have
    "\<not> session_open w'
       \<and> (succeeded SyncPlaywrightEnter w' \<longrightarrow> last (calls w') = SyncPlaywrightExit)
       \<and> (BrowserClose \<in> set (calls w') \<longleftrightarrow> succeeded BrowserNewPage w')"
    by cases (auto simp: obs session_open_def)
  ultimately show ?thesis
    by simp
qed

theorem session_released_on_every_path_witness:
  "succeeded (Launch True)
     (snd (verify_app
        (raising_at (NewContext 834 1194 ipad_user_agent) (Error ''Target closed''))
        init_world))
   \<and> succeeded (Launch True)
     (snd (main_player (raising_at BrowserNewPage (Error ''Target closed'')) init_world))
   \<and> \<not> session_open
     (snd (verify_app
        (raising_at (NewContext 834 1194 ipad_user_agent) (Error ''Target closed''))
        init_world))
   \<and> \<not> session_open
     (snd (main_player (raising_at BrowserNewPage (Error ''Target closed'')) init_world))
   \<and> last (calls (snd (verify_app
        (raising_at (NewContext 834 1194 ipad_user_agent) (Error ''Target closed''))
        init_world))) = SyncPlaywrightExit
   \<and> BrowserClose \<notin> set (calls (snd (verify_app
        (raising_at (NewContext 834 1194 ipad_user_agent) (Error ''Target closed''))
        init_world)))"
proof -
  let ?ipad = "verify_app
      (raising_at (NewContext 834 1194 ipad_user_agent) (Error ''Target closed''))
      init_world"
  let ?player = "main_player (raising_at BrowserNewPage (Error ''Target closed'')) init_world"
  have ipad: "?ipad = (fst ?ipad, snd ?ipad)" and player: "?player = (fst ?player, snd ?player)"
    by simp_all
  have facts: "succeeded (Launch True) (snd ?ipad)" "succeeded (Launch True) (snd ?player)"
    "succeeded SyncPlaywrightEnter (snd ?ipad)" "\<not> succeeded ContextNewPage (snd ?ipad)"
    by (simp_all add: verify_app_no_context main_player_no_page succeeded_def)
  from session_released_on_every_path [OF ipad player] facts show ?thesis
    by simp
qed

text \<open>
  C8, as stated: every output path is fixed by literals of the script, so two runs with the
  same responses of the browser and the application write the same paths whatever the
  invoking environment. The player runner does not: started in two directories with the
  same responses, it writes two different paths.
\<close>

theorem player_path_depends_on_cwd:
  "respond (all_return ''/home/a'') = respond (all_return ''/home/b'')
   \<and> print_answer (all_return ''/home/a'') = print_answer (all_return ''/home/b'')
   \<and> files (snd (main_player (all_return ''/home/a'') init_world)) =
       [''/home/a/verification/home.png'']
   \<and> files (snd (main_player (all_return ''/home/b'') init_world)) =
       [''/home/b/verification/home.png'']
   \<and> files (snd (main_player (all_return ''/home/a'') init_world)) \<noteq>
       files (snd (main_player (all_return ''/home/b'') init_world))"
  unfolding main_player_all_return
  by (simp add: path_join_def all_return_def)

text \<open>
  C8, amended. The paths the runners write are fixed by literals of the scripts and, for
  the player runner, by the working directory. In any two environments, whatever they
  answer, the iPad runner writes only its three literal relative paths, in their order: of
  two runs one writes a prefix of what the other writes, and two runs that write the same
  number of files write exactly the same paths. The player runner writes no other path
  than the working directory joined with the literal \<^verbatim>\<open>verification/home.png\<close>, so two of
  its runs started in the same directory that both write a file write the same path.
\<close>

theorem output_paths_fixed:
  assumes ipad1: "verify_app E1 init_world = (r1, w1)"
    and ipad2: "verify_app E2 init_world = (r2, w2)"
    and player1: "main_player E1 init_world = (r1', w1')"
    and player2: "main_player E2 init_world = (r2', w2')"
  shows "set (files w1) \<subseteq>
           {''verification/home_ipad.png'', ''verification/library_ipad.png'',
            ''verification/search_ipad.png''}
       \<and> (prefix (files w1) (files w2) \<or> prefix (files w2) (files w1))
       \<and> (length (files w1) = length (files w2) \<longrightarrow> files w1 = files w2)
       \<and> (\<forall>p. p \<in> set (files w1') \<longrightarrow>
            (\<exists>d. getcwd E1 = Inr d \<and> p = path_join d ''verification/home.png''))
       \<and> (getcwd E1 = getcwd E2 \<and> files w1' \<noteq> [] \<and> files w2' \<noteq> [] \<longrightarrow>
            files w1' = files w2')"
proof -
  note p1 = verify_app_files [OF ipad1] and p2 = verify_app_files [OF ipad2]
  from set_mono_prefix [OF p1] have literal:
    "set (files w1) \<subseteq>
       {''verification/home_ipad.png'', ''verification/library_ipad.png'',
        ''verification/search_ipad.png''}"
    by simp
  from prefixes_of_one_list [OF p1 p2] have comparable:
    "prefix (files w1) (files w2) \<or> prefix (files w2) (files w1)"
    and same: "length (files w1) = length (files w2) \<longrightarrow> files w1 = files w2"
    by simp_all
  from main_player_outcome [OF player1] have f1:
    "files w1' = [] \<or>
     (\<exists>d. getcwd E1 = Inr d \<and> files w1' = [path_join d ''verification/home.png''])"
    by cases simp_all
  from main_player_outcome [OF player2] have f2:
    "files w2' = [] \<or>
     (\<exists>d. getcwd E2 = Inr d \<and> files w2' = [path_join d ''verification/home.png''])"
    by cases simp_all
  from f1 have joined:
    "\<forall>p. p \<in> set (files w1') \<longrightarrow>
       (\<exists>d. getcwd E1 = Inr d \<and> p = path_join d ''verification/home.png'')"
    by auto
  from f1 f2 have same_dir:
    "getcwd E1 = getcwd E2 \<and> files w1' \<noteq> [] \<and> files w2' \<noteq> [] \<longrightarrow> files w1' = files w2'"
    by auto
  from literal comparable same joined same_dir show ?thesis
    by (intro conjI)
qed

theorem output_paths_fixed_witness:
  "files (snd (verify_app (all_return ''/home/a'') init_world)) =
     [''verification/home_ipad.png'', ''verification/library_ipad.png'',
      ''verification/search_ipad.png'']
   \<and> files (snd (verify_app
        (raising_at (Print ''Home screenshot taken'')
           (OSError ''[Errno 28] No space left on device''))
        init_world)) = [''verification/home_ipad.png'']
   \<and> prefix
       (files (snd (verify_app
          (raising_at (Print ''Home screenshot taken'')
             (OSError ''[Errno 28] No space left on device''))
          init_world)))
       (files (snd (verify_app (all_return ''/home/a'') init_world)))
   \<and> files (snd (main_player (all_return ''/home/a'') init_world)) =
       [path_join ''/home/a'' ''verification/home.png'']"
proof -
  let ?E1 = "all_return ''/home/a''"
  let ?E2 = "raising_at (Print ''Home screenshot taken'')
      (OSError ''[Errno 28] No space left on device'')"
  let ?i1 = "verify_app ?E1 init_world" and ?i2 = "verify_app ?E2 init_world"
  let ?p1 = "main_player ?E1 init_world" and ?p2 = "main_player ?E2 init_world"
  have runs: "?i1 = (fst ?i1, snd ?i1)" "?i2 = (fst ?i2, snd ?i2)"
    "?p1 = (fst ?p1, snd ?p1)" "?p2 = (fst ?p2, snd ?p2)"
    by simp_all
  have fs: "files (snd ?i1) =
      [''verification/home_ipad.png'', ''verification/library_ipad.png'',
       ''verification/search_ipad.png'']"
    "files (snd ?i2) = [''verification/home_ipad.png'']"
    "files (snd ?p1) = [path_join ''/home/a'' ''verification/home.png'']"
    by (simp_all add: verify_app_all_return verify_app_stdout_full main_player_all_return)
  from output_paths_fixed [OF runs] fs show ?thesis
    by auto
qed

end
